theory Spec2Isabelle
  imports Main "HOL-Library.Word"
begin

section \<open>The QR code page: \<open>src/pages/Home.tsx\<close>\<close>

text \<open>
  The page is one React function component, \<open>Home\<close>. Its hook state is a record, every
  handler is a function on that record, the markup it returns is a function of the record
  (\<open>render\<close>), and the browser capabilities the handlers call (canvas serialisation,
  clipboard, anchor download, \<open>sonner\<close>'s \<open>toast\<close>) are logged as a list of effects.
  Time is counted in milliseconds; one \<open>tick\<close> is one millisecond in which no user event
  arrives.
\<close>

subsection \<open>Strings\<close>

text \<open>
  A JavaScript string is a sequence of UTF-16 code units. Text typed by the user and the
  notices (which are Chinese) have this type; the ASCII literals of the markup
  (\<open>'H'\<close>, \<open>'#ffffff'\<close>, \<open>'image/png'\<close>, \<open>'qrcode.png'\<close>) are kept as \<open>string\<close>.
\<close>

type_synonym jsstring = "16 word list"

text \<open>
  \<open>String.prototype.trim\<close> removes ECMAScript WhiteSpace and LineTerminator code points
  from both ends: TAB, LF, VT, FF, CR, SP, NBSP, U+1680, U+2000..U+200A, LS, PS, U+202F,
  U+205F, U+3000 and the BOM U+FEFF.
\<close>

definition js_whitespace :: "16 word \<Rightarrow> bool" where
  "js_whitespace c =
     (c = 0x0009 \<or> c = 0x000A \<or> c = 0x000B \<or> c = 0x000C \<or> c = 0x000D \<or> c = 0x0020 \<or>
      c = 0x00A0 \<or> c = 0x1680 \<or>
      c = 0x2000 \<or> c = 0x2001 \<or> c = 0x2002 \<or> c = 0x2003 \<or> c = 0x2004 \<or> c = 0x2005 \<or>
      c = 0x2006 \<or> c = 0x2007 \<or> c = 0x2008 \<or> c = 0x2009 \<or> c = 0x200A \<or>
      c = 0x2028 \<or> c = 0x2029 \<or> c = 0x202F \<or> c = 0x205F \<or> c = 0x3000 \<or> c = 0xFEFF)"

definition trim :: "jsstring \<Rightarrow> jsstring" where
  "trim s = rev (dropWhile js_whitespace (rev (dropWhile js_whitespace s)))"

text \<open>A string used as a condition (\<open>if (s)\<close>, \<open>s ? a : b\<close>, \<open>s && x\<close>) is true unless it is empty.\<close>

definition truthy :: "jsstring \<Rightarrow> bool" where
  "truthy s = (s \<noteq> [])"

text \<open>The three notices, as the code units of the literals at lines 46, 61 and 64.\<close>

definition msg_enter_content :: jsstring where
  \<comment> \<open>line 46: please enter content first to generate a QR code\<close>
  "msg_enter_content =
     [0x8BF7, 0x5148, 0x8F93, 0x5165, 0x5185, 0x5BB9, 0x751F, 0x6210, 0x4E8C, 0x7EF4, 0x7801]"

definition msg_copied :: jsstring where
  \<comment> \<open>line 61: the QR code has been copied to the clipboard\<close>
  "msg_copied =
     [0x4E8C, 0x7EF4, 0x7801, 0x5DF2, 0x590D, 0x5236, 0x5230, 0x526A, 0x8D34, 0x677F]"

definition msg_copy_failed :: jsstring where
  \<comment> \<open>line 64: copying failed, please right-click to save the QR code\<close>
  "msg_copy_failed =
     [0x590D, 0x5236, 0x5931, 0x8D25, 0xFF0C, 0x8BF7, 0x53F3, 0x952E, 0x4FDD, 0x5B58, 0x4E8C,
      0x7EF4, 0x7801]"

subsection \<open>The debounce hook\<close>

text \<open>
  Modelled from the spec: the hook \<open>useDebounce\<close> of \<open>@/hooks/useDebounce\<close>, which
  \<open>Home.tsx\<close> imports and calls at line 13 and whose file is not among the sources.
  The spec (4.2, 3, 5): the stage observes Input text; after the input has been unchanged
  for the quiet period it publishes it as Debounced text; if Input text changes before the
  quiet period elapses, the pending publication is cancelled and a new quiet-period timer
  starts; only the most recent value is ever scheduled (a single slot); a timer that fires
  publishes the most recent Input text; Debounced text always equals some past value of
  Input text, so at mount it is the initial Input text.

  \<open>observed\<close> is the Input text the hook saw at the last render, \<open>pending\<close> the
  milliseconds left on the one timer, \<open>published\<close> the Debounced text it returns.
\<close>

record debounce_state =
  observed :: jsstring
  pending :: "nat option"
  published :: jsstring

definition useDebounce_init :: "jsstring \<Rightarrow> debounce_state" where
  "useDebounce_init v = \<lparr>observed = v, pending = None, published = v\<rparr>"

definition useDebounce :: "jsstring \<Rightarrow> nat \<Rightarrow> debounce_state \<Rightarrow> debounce_state" where
  \<comment> \<open>the call of the hook in a render that follows the first one\<close>
  "useDebounce v delay d =
     (if v = observed d then d else d\<lparr>observed := v, pending := Some delay\<rparr>)"

definition useDebounce_tick :: "debounce_state \<Rightarrow> debounce_state" where
  \<comment> \<open>one millisecond passes; the timer fires when its time is used up\<close>
  "useDebounce_tick d =
     (case pending d of
        None \<Rightarrow> d
      | Some r \<Rightarrow>
          if r \<le> 1 then d\<lparr>pending := None, published := observed d\<rparr>
          else d\<lparr>pending := Some (r - 1)\<rparr>)"

subsection \<open>The state of \<open>Home\<close>\<close>

record home_state =
  inputText :: jsstring            \<comment> \<open>line 8: \<open>useState('')\<close>\<close>
  isGenerating :: bool             \<comment> \<open>line 9: \<open>useState(false)\<close>\<close>
  debounce :: debounce_state       \<comment> \<open>line 13: the state behind \<open>useDebounce(inputText, 800)\<close>\<close>
  generating_timer :: "nat option" \<comment> \<open>line 21: milliseconds left on \<open>setTimeout(..., 200)\<close>\<close>

definition debouncedText :: "home_state \<Rightarrow> jsstring" where
  "debouncedText st = published (debounce st)"

text \<open>
  Lines 16 to 27 pass a function to \<open>useState\<close>. React calls the initialiser of a
  \<open>useState\<close> once, in the first render, and ignores the argument in every later render;
  the value the function returns (here the \<open>clearTimeout\<close> closure, or \<open>undefined\<close>) becomes
  a state value that nothing reads. The body is translated as it stands.
\<close>

definition generation_initializer :: "home_state \<Rightarrow> home_state" where
  "generation_initializer st =
     (if truthy (trim (debouncedText st))
      then st\<lparr>isGenerating := True, generating_timer := Some 200\<rparr>
      else st)"

definition mount :: home_state where
  \<comment> \<open>the first render: lines 8, 9, 13, then the one call of the initialiser of line 16\<close>
  "mount = generation_initializer
     \<lparr>inputText = [], isGenerating = False, debounce = useDebounce_init [],
      generating_timer = None\<rparr>"

definition setInputText :: "jsstring \<Rightarrow> home_state \<Rightarrow> home_state" where
  \<comment> \<open>the setter of line 8, followed by the render it causes, in which line 13 runs again\<close>
  "setInputText v st = st\<lparr>inputText := v, debounce := useDebounce v 800 (debounce st)\<rparr>"

definition handleInputChange :: "jsstring \<Rightarrow> home_state \<Rightarrow> home_state" where
  \<comment> \<open>lines 30 to 32; the argument is \<open>e.target.value\<close>\<close>
  "handleInputChange v st = setInputText v st"

record key_event =
  ctrlKey :: bool
  key :: string

definition handleKeyDown :: "key_event \<Rightarrow> home_state \<Rightarrow> home_state" where
  \<comment> \<open>lines 35 to 41; \<open>e.preventDefault()\<close> acts on the event only, not on the state\<close>
  "handleKeyDown e st =
     (if ctrlKey e \<and> key e = ''Enter'' then setInputText [] st else st)"

definition click_clear :: "home_state \<Rightarrow> home_state" where
  \<comment> \<open>line 105: the \<open>onClick\<close> of the clear button\<close>
  "click_clear st = setInputText [] st"

definition generating_timer_tick :: "home_state \<Rightarrow> home_state" where
  \<comment> \<open>lines 21 to 23: the timer's callback is \<open>setIsGenerating(false)\<close>\<close>
  "generating_timer_tick st =
     (case generating_timer st of
        None \<Rightarrow> st
      | Some r \<Rightarrow>
          if r \<le> 1 then st\<lparr>isGenerating := False, generating_timer := None\<rparr>
          else st\<lparr>generating_timer := Some (r - 1)\<rparr>)"

definition tick :: "home_state \<Rightarrow> home_state" where
  "tick st = generating_timer_tick (st\<lparr>debounce := useDebounce_tick (debounce st)\<rparr>)"

primrec elapse :: "nat \<Rightarrow> home_state \<Rightarrow> home_state" where
  "elapse 0 st = st"
| "elapse (Suc n) st = elapse n (tick st)"

subsection \<open>What \<open>Home\<close> renders\<close>

record qr_props =
  value_prop :: jsstring      \<comment> \<open>line 168: \<open>value\<close>\<close>
  size_prop :: nat            \<comment> \<open>line 169: \<open>size\<close>\<close>
  level :: string             \<comment> \<open>line 170\<close>
  includeMargin :: bool       \<comment> \<open>line 171\<close>
  bgColor :: string           \<comment> \<open>line 172\<close>
  fgColor :: string           \<comment> \<open>line 173\<close>

datatype qr_display =
    Placeholder               \<comment> \<open>lines 184 to 187: no container, \<open>qrCodeRef.current\<close> is null\<close>
  | Spinner                   \<comment> \<open>lines 163 to 165, inside the container\<close>
  | QRCode qr_props           \<comment> \<open>lines 167 to 174, inside the container\<close>

record view =
  textarea_value :: jsstring  \<comment> \<open>line 97\<close>
  clear_button :: bool        \<comment> \<open>line 103\<close>
  display :: qr_display       \<comment> \<open>lines 154 to 188\<close>
  export_buttons :: bool      \<comment> \<open>line 191\<close>

definition render :: "home_state \<Rightarrow> view" where
  "render st =
     \<lparr>textarea_value = inputText st,
      clear_button = truthy (inputText st),
      display =
        (if truthy (trim (debouncedText st)) then
           (if isGenerating st then Spinner
            else QRCode \<lparr>value_prop = debouncedText st, size_prop = 200, level = ''H'',
                   includeMargin = True, bgColor = ''#ffffff'', fgColor = ''#000000''\<rparr>)
         else Placeholder),
      export_buttons = truthy (trim (debouncedText st))\<rparr>"

subsection \<open>The encoder\<close>

text \<open>
  Modelled from the spec: the encoder capability of 4.4 and 6, which line 3 imports from
  the library \<open>qrcode.react\<close>; its code is not among the sources. The spec: it maps a text,
  a pixel size, an error-correction level, a margin flag and two colours to a raster; it is
  deterministic; it fails where it cannot represent the input, for example a text that
  exceeds the capacity of the chosen level.

  An encoder is therefore the set of props it can represent. Where it can, the raster is
  a function of the props, so the \<open>canvas\<close> element it draws is identified by them; a PNG
  blob and a data URL are identified by their type and the canvas they serialise. Where
  it cannot, the library throws while the \<open>QRCode\<close> element of lines 167 to 174 is being
  rendered; neither \<open>Home.tsx\<close> nor \<open>main.tsx\<close> catches that, React takes the whole page
  down, and no canvas exists.
\<close>

type_synonym encoder = "qr_props \<Rightarrow> bool"

text \<open>
  A sample encoder, for concrete instances: it stores the text in byte mode and accepts
  it up to the byte capacity of the largest QR symbol at the given level. It counts one
  byte per code unit, which is exact for ASCII text.
\<close>

definition byte_capacity :: "string \<Rightarrow> nat option" where
  "byte_capacity l =
     (if l = ''L'' then Some 2953 else if l = ''M'' then Some 2331
      else if l = ''Q'' then Some 1663 else if l = ''H'' then Some 1273 else None)"

definition byte_mode_encoder :: encoder where
  "byte_mode_encoder p =
     (case byte_capacity (level p) of
        None \<Rightarrow> False
      | Some n \<Rightarrow> length (value_prop p) \<le> n)"

subsection \<open>The browser, as the handlers see it\<close>

datatype dom_canvas = Canvas qr_props

datatype blob = Blob string dom_canvas

datatype data_url = DataURL string dom_canvas

definition query_canvas :: "encoder \<Rightarrow> qr_display \<Rightarrow> dom_canvas option" where
  \<comment> \<open>lines 52 and 204: \<open>qrCodeRef.current?.querySelector('canvas')\<close>, on the page that
      the render and the encoder have produced\<close>
  "query_canvas enc v =
     (case v of
        Placeholder \<Rightarrow> None
      | Spinner \<Rightarrow> None
      | QRCode p \<Rightarrow> if enc p then Some (Canvas p) else None)"

datatype js_error = TypeError | SecurityError | NotAllowedError

datatype toBlob_behaviour =
    ToBlobThrows js_error     \<comment> \<open>the call itself throws\<close>
  | ToBlobNull                \<comment> \<open>the callback receives \<open>null\<close>\<close>
  | ToBlobPng                 \<comment> \<open>the callback receives the PNG serialisation of the canvas\<close>

datatype clipboard =
    ClipboardWorking          \<comment> \<open>\<open>navigator.clipboard.write\<close> returns a promise that fulfils\<close>
  | ClipboardDenied           \<comment> \<open>it returns a promise rejected with NotAllowedError\<close>
  | ClipboardUnsupported      \<comment> \<open>\<open>navigator.clipboard\<close> is undefined: the call throws TypeError\<close>

text \<open>What the handlers call but the page does not define: the QR library and the browser.\<close>

record platform =
  encoder :: encoder
  toBlob_behaviour :: toBlob_behaviour
  clipboard :: clipboard

datatype effect =
    Toast jsstring                               \<comment> \<open>\<open>toast(msg)\<close>\<close>
  | ToBlob dom_canvas                            \<comment> \<open>\<open>canvas.toBlob(callback)\<close>\<close>
  | ClipboardWrite "(string \<times> blob) list list"   \<comment> \<open>\<open>navigator.clipboard.write(items)\<close>\<close>
  | CreateElement string                         \<comment> \<open>\<open>document.createElement(tag)\<close>\<close>
  | ToDataURL dom_canvas string                  \<comment> \<open>\<open>canvas.toDataURL(type)\<close>\<close>
  | AnchorClick string data_url                  \<comment> \<open>\<open>link.click()\<close>, with \<open>link.download\<close> and \<open>link.href\<close>\<close>

datatype promise = Fulfilled | Rejected js_error

subsection \<open>The copy handler, lines 44 to 66\<close>

definition toBlob_callback :: "clipboard \<Rightarrow> blob option \<Rightarrow> effect list \<times> promise" where
  \<comment> \<open>lines 56 to 62: the \<open>async\<close> function handed to \<open>canvas.toBlob\<close>; an exception or a
      rejected \<open>await\<close> inside it rejects the promise it returns\<close>
  "toBlob_callback cb b =
     (case b of
        None \<Rightarrow> ([], Fulfilled)
      | Some bl \<Rightarrow>
          (case cb of
             ClipboardUnsupported \<Rightarrow> ([], Rejected TypeError)
           | ClipboardDenied \<Rightarrow>
               ([ClipboardWrite [[(''image/png'', bl)]]], Rejected NotAllowedError)
           | ClipboardWorking \<Rightarrow>
               ([ClipboardWrite [[(''image/png'', bl)]], Toast msg_copied], Fulfilled)))"

definition copy_try_block ::
  "platform \<Rightarrow> qr_display \<Rightarrow> effect list \<times> (js_error + blob option option)" where
  \<comment> \<open>lines 51 to 62, up to the return of \<open>canvas.toBlob\<close>: what was done, and either the
      exception thrown (\<open>Inl\<close>) or the argument with which the browser will later run
      the callback (\<open>Inr None\<close>: no callback was registered)\<close>
  "copy_try_block p v =
     (case query_canvas (encoder p) v of
        None \<Rightarrow> ([], Inr None)
      | Some c \<Rightarrow>
          (case toBlob_behaviour p of
             ToBlobThrows e \<Rightarrow> ([ToBlob c], Inl e)
           | ToBlobNull \<Rightarrow> ([ToBlob c], Inr (Some None))
           | ToBlobPng \<Rightarrow> ([ToBlob c], Inr (Some (Some (Blob ''image/png'' c))))))"

record copy_outcome =
  effects :: "effect list"
  unhandled_rejection :: "js_error option"

definition handleCopyQRCode :: "jsstring \<Rightarrow> qr_display \<Rightarrow> platform \<Rightarrow> copy_outcome" where
  \<comment> \<open>the arguments: \<open>debouncedText\<close> of the render that made the handler, the content of
      the page's QR area, the library and the browser. \<open>canvas.toBlob\<close> drops the promise its callback
      returns, so a rejection of that promise has no handler.\<close>
  "handleCopyQRCode d v p =
     (if \<not> truthy (trim d) then
        \<lparr>effects = [Toast msg_enter_content], unhandled_rejection = None\<rparr>
      else
        (case copy_try_block p v of
           (es, Inl e) \<Rightarrow>
             \<lparr>effects = es @ [Toast msg_copy_failed], unhandled_rejection = None\<rparr>
         | (es, Inr None) \<Rightarrow> \<lparr>effects = es, unhandled_rejection = None\<rparr>
         | (es, Inr (Some b)) \<Rightarrow>
             (case toBlob_callback (clipboard p) b of
                (es', Fulfilled) \<Rightarrow> \<lparr>effects = es @ es', unhandled_rejection = None\<rparr>
              | (es', Rejected e) \<Rightarrow> \<lparr>effects = es @ es', unhandled_rejection = Some e\<rparr>)))"

subsection \<open>The download handler, lines 202 to 211\<close>

definition handleDownload :: "platform \<Rightarrow> qr_display \<Rightarrow> effect list" where
  "handleDownload p v =
     (case query_canvas (encoder p) v of
        None \<Rightarrow> []
      | Some c \<Rightarrow>
          [CreateElement ''a'', ToDataURL c ''image/png'',
           AnchorClick ''qrcode.png'' (DataURL ''image/png'' c)])"

subsection \<open>Clicks on the page\<close>

text \<open>
  A click runs the handler of the current render against the current page. Neither
  handler calls a state setter, so the state they return is the one they were given.
\<close>

definition click_copy :: "platform \<Rightarrow> home_state \<Rightarrow> home_state \<times> copy_outcome" where
  \<comment> \<open>lines 159 and 194\<close>
  "click_copy p st = (st, handleCopyQRCode (debouncedText st) (display (render st)) p)"

definition click_download :: "platform \<Rightarrow> home_state \<Rightarrow> home_state \<times> effect list" where
  \<comment> \<open>line 202\<close>
  "click_download p st = (st, handleDownload p (display (render st)))"

datatype event =
    Change jsstring
  | KeyDown key_event
  | ClickClear
  | ClickCopy platform
  | ClickDownload platform
  | Tick

fun step :: "home_state \<Rightarrow> event \<Rightarrow> home_state" where
  "step st (Change v) = handleInputChange v st"
| "step st (KeyDown e) = handleKeyDown e st"
| "step st ClickClear = click_clear st"
| "step st (ClickCopy p) = fst (click_copy p st)"
| "step st (ClickDownload p) = fst (click_download p st)"
| "step st Tick = tick st"

definition run :: "event list \<Rightarrow> home_state" where
  \<comment> \<open>the state of the page after the events, from its mount\<close>
  "run evs = foldl step mount evs"

definition is_clipboard_write :: "effect \<Rightarrow> bool" where
  "is_clipboard_write e = (case e of ClipboardWrite _ \<Rightarrow> True | _ \<Rightarrow> False)"

definition is_toast :: "effect \<Rightarrow> bool" where
  "is_toast e = (case e of Toast _ \<Rightarrow> True | _ \<Rightarrow> False)"

definition is_canvas_access :: "effect \<Rightarrow> bool" where
  "is_canvas_access e = (case e of ToBlob _ \<Rightarrow> True | ToDataURL _ _ \<Rightarrow> True | _ \<Rightarrow> False)"

definition is_save_trigger :: "effect \<Rightarrow> bool" where
  "is_save_trigger e = (case e of AnchorClick _ _ \<Rightarrow> True | _ \<Rightarrow> False)"

subsection \<open>Auxiliary predicates and a sample state\<close>

text \<open>
  The debounce hook's state agrees with the page: it has seen the current Input text, and
  either a timer of at most the quiet period is running or the Input text is published.
\<close>

definition debounce_inv :: "home_state \<Rightarrow> bool" where
  "debounce_inv st =
     (observed (debounce st) = inputText st \<and>
      (case pending (debounce st) of
         None \<Rightarrow> published (debounce st) = inputText st
       | Some r \<Rightarrow> 0 < r \<and> r \<le> 800))"

text \<open>The generation flag is down and its timer is not running.\<close>

definition generation_idle :: "home_state \<Rightarrow> bool" where
  "generation_idle st = (\<not> isGenerating st \<and> generating_timer st = None)"

text \<open>The page 800 ms after the user typed \<open>a\<close> into the freshly mounted page.\<close>

definition shown_a :: home_state where
  "shown_a = \<lparr>inputText = [0x61], isGenerating = False,
     debounce = \<lparr>observed = [0x61], pending = None, published = [0x61]\<rparr>,
     generating_timer = None\<rparr>"

section \<open>Strings: trimming\<close>

lemma all_dropWhile_iff: "(\<forall>x\<in>set (dropWhile P xs). P x) \<longleftrightarrow> (\<forall>x\<in>set xs. P x)"
  by (induction xs) auto

lemma trim_empty_iff: "trim s = [] \<longleftrightarrow> (\<forall>c\<in>set s. js_whitespace c)"
  by (simp add: trim_def all_dropWhile_iff)

lemma truthy_trim_iff: "truthy (trim s) \<longleftrightarrow> (\<exists>c\<in>set s. \<not> js_whitespace c)"
  by (simp add: truthy_def trim_empty_iff)

section \<open>Time, the debounce hook and the generation flag\<close>

lemma debounce_tick: "debounce (tick st) = useDebounce_tick (debounce st)"
  by (simp add: tick_def generating_timer_tick_def split: option.split)

lemma inputText_tick: "inputText (tick st) = inputText st"
  by (simp add: tick_def generating_timer_tick_def split: option.split)

lemma inputText_elapse: "inputText (elapse n st) = inputText st"
  by (induction n arbitrary: st) (simp_all add: inputText_tick)

lemma debounce_elapse:
  "debounce (elapse n st) =
     (case pending (debounce st) of
        None \<Rightarrow> debounce st
      | Some r \<Rightarrow>
          if n = 0 then debounce st
          else if r \<le> n then (debounce st)\<lparr>pending := None, published := observed (debounce st)\<rparr>
          else (debounce st)\<lparr>pending := Some (r - n)\<rparr>)"
proof (induction n arbitrary: st)
  case 0
  show ?case by (simp split: option.split)
next
  case (Suc n)
  show ?case
    by (simp add: Suc.IH debounce_tick useDebounce_tick_def split: option.split)
qed

lemma mount_eq:
  "mount = \<lparr>inputText = [], isGenerating = False, debounce = useDebounce_init [],
            generating_timer = None\<rparr>"
  by (simp add: mount_def generation_initializer_def debouncedText_def useDebounce_init_def
      trim_def truthy_def)

lemma debounce_inv_mount: "debounce_inv mount"
  by (simp add: mount_eq debounce_inv_def useDebounce_init_def)

lemma debounce_inv_setInputText: "debounce_inv st \<Longrightarrow> debounce_inv (setInputText v st)"
  by (auto simp: debounce_inv_def setInputText_def useDebounce_def split: option.splits)

lemma debounce_inv_tick: "debounce_inv st \<Longrightarrow> debounce_inv (tick st)"
  by (auto simp: debounce_inv_def debounce_tick inputText_tick useDebounce_tick_def
      split: option.splits)

lemma debounce_inv_step: "debounce_inv st \<Longrightarrow> debounce_inv (step st ev)"
  by (cases ev)
    (simp_all add: handleInputChange_def handleKeyDown_def click_clear_def click_copy_def
      click_download_def debounce_inv_setInputText debounce_inv_tick)

lemma debounce_inv_foldl: "debounce_inv st \<Longrightarrow> debounce_inv (foldl step st evs)"
  by (induction evs arbitrary: st) (simp_all add: debounce_inv_step)

lemma debounce_inv_run: "debounce_inv (run evs)"
  by (simp add: run_def debounce_inv_foldl debounce_inv_mount)

lemma debounce_inv_elapse: "debounce_inv st \<Longrightarrow> debounce_inv (elapse n st)"
  by (induction n arbitrary: st) (simp_all add: debounce_inv_tick)

lemma generation_idle_mount: "generation_idle mount"
  by (simp add: mount_eq generation_idle_def)

lemma generation_idle_step: "generation_idle st \<Longrightarrow> generation_idle (step st ev)"
  by (cases ev)
    (simp_all add: generation_idle_def handleInputChange_def handleKeyDown_def click_clear_def
      click_copy_def click_download_def setInputText_def tick_def generating_timer_tick_def)

lemma generation_idle_foldl: "generation_idle st \<Longrightarrow> generation_idle (foldl step st evs)"
  by (induction evs arbitrary: st) (simp_all add: generation_idle_step)

lemma generation_idle_elapse: "generation_idle st \<Longrightarrow> generation_idle (elapse n st)"
proof (induction n arbitrary: st)
  case 0
  then show ?case by simp
next
  case (Suc n)
  have "generation_idle (tick st)"
    using Suc.prems by (simp add: generation_idle_def tick_def generating_timer_tick_def)
  then show ?case by (simp add: Suc.IH)
qed

lemma generation_idle_run: "generation_idle (run evs)"
  using generation_idle_foldl [OF generation_idle_mount, of evs]
  by (simp add: run_def)

lemma isGenerating_run: "isGenerating (run evs) = False"
  using generation_idle_run [of evs]
  by (simp add: generation_idle_def)

lemma debouncedText_settled:
  assumes "debounce_inv st" and "800 \<le> n"
  shows "debouncedText (elapse n (setInputText s st)) = s"
proof -
  have inv: "debounce_inv (setInputText s st)"
    using assms(1) by (rule debounce_inv_setInputText)
  have inp: "inputText (setInputText s st) = s"
    by (simp add: setInputText_def)
  show ?thesis
    using inv inp assms(2)
    by (auto simp: debouncedText_def debounce_elapse debounce_inv_def split: option.splits)
qed

lemma debouncedText_before_expiry:
  assumes "s \<noteq> inputText st" and "debounce_inv st" and "k < 800"
  shows "debouncedText (elapse k (setInputText s st)) = debouncedText st"
  using assms
  by (auto simp: debouncedText_def debounce_elapse debounce_inv_def setInputText_def
      useDebounce_def split: option.splits)

lemma debouncedText_after_change:
  assumes "s \<noteq> inputText st" and "debounce_inv st"
  shows "debouncedText (elapse m (setInputText s st)) =
           (if 800 \<le> m then s else debouncedText st)"
  using assms
  by (auto simp: debouncedText_def debounce_elapse debounce_inv_def setInputText_def
      useDebounce_def split: option.splits)

lemma run_Nil: "run [] = mount"
  by (simp add: run_def)

lemma not_whitespace_a: "\<not> js_whitespace 0x61"
  by (simp add: js_whitespace_def)

lemma trim_a: "trim [0x61] = [0x61]"
  by (simp add: trim_def not_whitespace_a)

lemma display_shown_a:
  "display (render shown_a) =
     QRCode \<lparr>value_prop = [0x61], size_prop = 200, level = ''H'', includeMargin = True,
             bgColor = ''#ffffff'', fgColor = ''#000000''\<rparr>"
  by (simp add: render_def shown_a_def debouncedText_def trim_a truthy_def)

lemma shown_a_reached: "elapse 800 (handleInputChange [0x61] mount) = shown_a"
proof -
  let ?st = "handleInputChange [0x61] mount"
  have "generation_idle ?st"
    using generation_idle_step [OF generation_idle_mount, of "Change [0x61]"] by simp
  then have "generation_idle (elapse 800 ?st)"
    by (rule generation_idle_elapse)
  then have g: "isGenerating (elapse 800 ?st) = False" "generating_timer (elapse 800 ?st) = None"
    by (simp_all add: generation_idle_def)
  have i: "inputText (elapse 800 ?st) = [0x61]"
    by (simp add: inputText_elapse handleInputChange_def setInputText_def)
  have d: "debounce (elapse 800 ?st) = \<lparr>observed = [0x61], pending = None, published = [0x61]\<rparr>"
    by (simp add: debounce_elapse handleInputChange_def setInputText_def useDebounce_def
        mount_eq useDebounce_init_def)
  show ?thesis
    using g i d by (simp add: shown_a_def)
qed

lemma settled_state:
  assumes "s \<noteq> []"
  shows "elapse 800 (handleInputChange s mount) =
           \<lparr>inputText = s, isGenerating = False,
            debounce = \<lparr>observed = s, pending = None, published = s\<rparr>,
            generating_timer = None\<rparr>"
proof -
  let ?st = "handleInputChange s mount"
  have "generation_idle ?st"
    using generation_idle_step [OF generation_idle_mount, of "Change s"] by simp
  then have "generation_idle (elapse 800 ?st)"
    by (rule generation_idle_elapse)
  then have g: "isGenerating (elapse 800 ?st) = False" "generating_timer (elapse 800 ?st) = None"
    by (simp_all add: generation_idle_def)
  have i: "inputText (elapse 800 ?st) = s"
    by (simp add: inputText_elapse handleInputChange_def setInputText_def)
  have d: "debounce (elapse 800 ?st) = \<lparr>observed = s, pending = None, published = s\<rparr>"
    using assms
    by (simp add: debounce_elapse handleInputChange_def setInputText_def useDebounce_def
        mount_eq useDebounce_init_def)
  show ?thesis
    using g i d by simp
qed

lemma foldl_step_ticks: "foldl step st (replicate n Tick) = elapse n st"
  by (induction n arbitrary: st) simp_all

lemma run_type_a_and_wait: "run (Change [0x61] # replicate 800 Tick) = shown_a"
  by (simp add: run_def foldl_step_ticks shown_a_reached)

lemma byte_mode_encoder_a:
  "byte_mode_encoder \<lparr>value_prop = [0x61], size_prop = 200, level = ''H'', includeMargin = True,
     bgColor = ''#ffffff'', fgColor = ''#000000''\<rparr>"
  by (simp add: byte_mode_encoder_def byte_capacity_def)

lemma generation_initializer_mount: "generation_initializer mount = mount"
  by (simp add: generation_initializer_def mount_eq debouncedText_def useDebounce_init_def
      trim_def truthy_def)

lemma copy_failed_notice_iff:
  "Toast msg_copy_failed \<in> set (effects (handleCopyQRCode d v p)) \<longleftrightarrow>
     truthy (trim d) \<and> query_canvas (encoder p) v \<noteq> None \<and>
     (\<exists>e. toBlob_behaviour p = ToBlobThrows e)"
  by (auto simp: handleCopyQRCode_def copy_try_block_def toBlob_callback_def
      msg_copy_failed_def msg_enter_content_def msg_copied_def
      split: option.split toBlob_behaviour.split clipboard.split)

section \<open>The claims\<close>

text \<open>
  Claim C1: whenever Debounced text goes from empty or whitespace to non-empty, the
  generation flag is set to true and is cleared 200 ms later; while it is true the page
  shows the spinner instead of the QR code.

  The page does not do this. The function of lines 16 to 27 is handed to \<open>useState\<close>, so
  it runs once, at mount, when Debounced text is empty; no later render runs it
  (\<open>isGenerating_run\<close>: the flag is false after every sequence of events). Evaluated:
  the user types \<open>a\<close> into the fresh page; 799 ms later Debounced text is still empty, at
  800 ms it is \<open>a\<close>, the flag is false, no timer runs, and the QR code is on the page.
\<close>

theorem generation_flag_stays_false:
  "debouncedText mount = [] \<and>
   debouncedText (elapse 799 (handleInputChange [0x61] mount)) = [] \<and>
   debouncedText (elapse 800 (handleInputChange [0x61] mount)) = [0x61] \<and>
   \<not> isGenerating (elapse 800 (handleInputChange [0x61] mount)) \<and>
   generating_timer (elapse 800 (handleInputChange [0x61] mount)) = None \<and>
   display (render (elapse 800 (handleInputChange [0x61] mount))) =
     QRCode \<lparr>value_prop = [0x61], size_prop = 200, level = ''H'', includeMargin = True,
             bgColor = ''#ffffff'', fgColor = ''#000000''\<rparr>"
proof -
  let ?st = "handleInputChange [0x61] mount"
  have d0: "debouncedText mount = []"
    by (simp add: mount_eq debouncedText_def useDebounce_init_def)
  have ne: "[0x61] \<noteq> inputText mount"
    by (simp add: mount_eq)
  have d799: "debouncedText (elapse 799 ?st) = []"
    using debouncedText_after_change [OF ne debounce_inv_mount, of 799]
    by (simp add: handleInputChange_def d0)
  have d800: "debouncedText (elapse 800 ?st) = [0x61]"
    using debouncedText_after_change [OF ne debounce_inv_mount, of 800]
    by (simp add: handleInputChange_def)
  have "generation_idle ?st"
    using generation_idle_step [OF generation_idle_mount, of "Change [0x61]"] by simp
  then have idle: "generation_idle (elapse 800 ?st)"
    by (rule generation_idle_elapse)
  have g: "\<not> isGenerating (elapse 800 ?st)" and t: "generating_timer (elapse 800 ?st) = None"
    using idle by (simp_all add: generation_idle_def)
  have r: "display (render (elapse 800 ?st)) =
     QRCode \<lparr>value_prop = [0x61], size_prop = 200, level = ''H'', includeMargin = True,
             bgColor = ''#ffffff'', fgColor = ''#000000''\<rparr>"
    using g by (simp add: render_def d800 trim_a truthy_def)
  show ?thesis
    using d0 d799 d800 g t r by simp
qed

text \<open>
  Claim C2: if the clipboard write is denied or unsupported, the copy handler shows the
  notice of line 64 and the rejection does not escape as an unhandled error.

  The handler does not do this. The \<open>await\<close> of line 58 is inside the callback that
  \<open>canvas.toBlob\<close> runs after the \<open>try\<close> block has been left, so the \<open>catch\<close> of line 63
  sees only an exception of \<open>toBlob\<close> itself (\<open>copy_failed_notice_iff\<close>). Evaluated
  with a denied and with an unsupported clipboard: no notice, and a rejection nobody
  handles.
\<close>

theorem clipboard_rejection_is_unhandled:
  "handleCopyQRCode [0x61]
     (QRCode \<lparr>value_prop = [0x61], size_prop = 200, level = ''H'', includeMargin = True,
              bgColor = ''#ffffff'', fgColor = ''#000000''\<rparr>)
     \<lparr>encoder = byte_mode_encoder, toBlob_behaviour = ToBlobPng, clipboard = ClipboardDenied\<rparr> =
   \<lparr>effects =
      [ToBlob (Canvas \<lparr>value_prop = [0x61], size_prop = 200, level = ''H'',
                       includeMargin = True, bgColor = ''#ffffff'', fgColor = ''#000000''\<rparr>),
       ClipboardWrite [[(''image/png'', Blob ''image/png''
          (Canvas \<lparr>value_prop = [0x61], size_prop = 200, level = ''H'',
                   includeMargin = True, bgColor = ''#ffffff'', fgColor = ''#000000''\<rparr>))]]],
    unhandled_rejection = Some NotAllowedError\<rparr> \<and>
   handleCopyQRCode [0x61]
     (QRCode \<lparr>value_prop = [0x61], size_prop = 200, level = ''H'', includeMargin = True,
              bgColor = ''#ffffff'', fgColor = ''#000000''\<rparr>)
     \<lparr>encoder = byte_mode_encoder, toBlob_behaviour = ToBlobPng, clipboard = ClipboardUnsupported\<rparr> =
   \<lparr>effects =
      [ToBlob (Canvas \<lparr>value_prop = [0x61], size_prop = 200, level = ''H'',
                       includeMargin = True, bgColor = ''#ffffff'', fgColor = ''#000000''\<rparr>)],
    unhandled_rejection = Some TypeError\<rparr>"
  by (simp add: handleCopyQRCode_def copy_try_block_def toBlob_callback_def query_canvas_def
      byte_mode_encoder_a trim_a truthy_def)

text \<open>
  Claim C3: a copy action while Debounced text is empty or consists of whitespace only
  produces the notice of line 46, issues no clipboard write and returns without touching
  the canvas, whatever the page shows and whatever the browser would do.
\<close>

theorem copy_without_content_only_notifies:
  assumes "\<forall>c\<in>set d. js_whitespace c"
  shows "handleCopyQRCode d v p =
           \<lparr>effects = [Toast msg_enter_content], unhandled_rejection = None\<rparr> \<and>
         filter is_clipboard_write (effects (handleCopyQRCode d v p)) = [] \<and>
         filter is_canvas_access (effects (handleCopyQRCode d v p)) = []"
proof -
  have "\<not> truthy (trim d)"
    using assms by (simp add: truthy_trim_iff)
  then have "handleCopyQRCode d v p =
      \<lparr>effects = [Toast msg_enter_content], unhandled_rejection = None\<rparr>"
    by (simp add: handleCopyQRCode_def)
  then show ?thesis
    by (simp add: is_clipboard_write_def is_canvas_access_def)
qed

text \<open>C3 at a Debounced text of a space and a line feed.\<close>

theorem copy_without_content_only_notifies_witness:
  "js_whitespace 0x20 \<and> js_whitespace 0x0A \<and>
   handleCopyQRCode [0x20, 0x0A] Placeholder
     \<lparr>encoder = byte_mode_encoder, toBlob_behaviour = ToBlobPng, clipboard = ClipboardWorking\<rparr> =
     \<lparr>effects = [Toast msg_enter_content], unhandled_rejection = None\<rparr>"
proof -
  have h: "\<forall>c\<in>set [0x20, 0x0A]. js_whitespace c"
    by (simp add: js_whitespace_def)
  show ?thesis
    using h copy_without_content_only_notifies [OF h, of Placeholder
        "\<lparr>encoder = byte_mode_encoder, toBlob_behaviour = ToBlobPng, clipboard = ClipboardWorking\<rparr>"]
    by simp
qed

text \<open>
  Claim C4, as amended: a copy action with Debounced text that has a character other than
  whitespace, a canvas on the page, a \<open>toBlob\<close> that delivers the PNG blob and a working
  clipboard issues exactly one clipboard write, whose payload is one item holding the PNG
  blob of that canvas under the type \<open>image/png\<close>, and then shows the notice of line 61,
  and nothing else.
\<close>

theorem copy_writes_png_once:
  assumes "\<exists>x\<in>set d. \<not> js_whitespace x"
    and "query_canvas (encoder p) v = Some c"
    and "toBlob_behaviour p = ToBlobPng"
    and "clipboard p = ClipboardWorking"
  shows "handleCopyQRCode d v p =
           \<lparr>effects = [ToBlob c, ClipboardWrite [[(''image/png'', Blob ''image/png'' c)]],
                       Toast msg_copied],
            unhandled_rejection = None\<rparr> \<and>
         filter is_clipboard_write (effects (handleCopyQRCode d v p)) =
           [ClipboardWrite [[(''image/png'', Blob ''image/png'' c)]]] \<and>
         filter is_toast (effects (handleCopyQRCode d v p)) = [Toast msg_copied]"
proof -
  have "truthy (trim d)"
    using assms(1) by (simp add: truthy_trim_iff)
  then have "handleCopyQRCode d v p =
      \<lparr>effects = [ToBlob c, ClipboardWrite [[(''image/png'', Blob ''image/png'' c)]],
                  Toast msg_copied],
       unhandled_rejection = None\<rparr>"
    using assms(2-4) by (simp add: handleCopyQRCode_def copy_try_block_def toBlob_callback_def)
  then show ?thesis
    by (simp add: is_clipboard_write_def is_toast_def)
qed

text \<open>C4 at Debounced text \<open>a\<close> and the QR code the page renders for it.\<close>

theorem copy_writes_png_once_witness:
  "\<not> js_whitespace 0x61 \<and>
   handleCopyQRCode [0x61]
     (QRCode \<lparr>value_prop = [0x61], size_prop = 200, level = ''H'', includeMargin = True,
              bgColor = ''#ffffff'', fgColor = ''#000000''\<rparr>)
     \<lparr>encoder = byte_mode_encoder, toBlob_behaviour = ToBlobPng, clipboard = ClipboardWorking\<rparr> =
   \<lparr>effects =
      [ToBlob (Canvas \<lparr>value_prop = [0x61], size_prop = 200, level = ''H'',
                       includeMargin = True, bgColor = ''#ffffff'', fgColor = ''#000000''\<rparr>),
       ClipboardWrite [[(''image/png'', Blob ''image/png''
          (Canvas \<lparr>value_prop = [0x61], size_prop = 200, level = ''H'',
                   includeMargin = True, bgColor = ''#ffffff'', fgColor = ''#000000''\<rparr>))]],
       Toast msg_copied],
    unhandled_rejection = None\<rparr>"
proof -
  let ?P = "\<lparr>value_prop = [0x61], size_prop = 200, level = ''H'', includeMargin = True,
             bgColor = ''#ffffff'', fgColor = ''#000000''\<rparr>"
  let ?p = "\<lparr>encoder = byte_mode_encoder, toBlob_behaviour = ToBlobPng, clipboard = ClipboardWorking\<rparr>"
  have h1: "\<exists>x\<in>set [0x61]. \<not> js_whitespace x"
    by (simp add: js_whitespace_def)
  have h2: "query_canvas (encoder ?p) (QRCode ?P) = Some (Canvas ?P)"
    by (simp add: query_canvas_def byte_mode_encoder_a)
  have h3: "toBlob_behaviour ?p = ToBlobPng" and h4: "clipboard ?p = ClipboardWorking"
    by simp_all
  show ?thesis
    using copy_writes_png_once [OF h1 h2 h3 h4] by (simp add: js_whitespace_def)
qed

text \<open>
  C4 as stated, without the condition on \<open>toBlob\<close>, fails: with content, the canvas on the
  page and a working clipboard, a \<open>toBlob\<close> that hands \<open>null\<close> to its callback makes line 57
  return, and there is neither a write nor a notice.
\<close>

theorem copy_null_blob_counterexample:
  "\<not> js_whitespace 0x61 \<and>
   query_canvas byte_mode_encoder
     (QRCode \<lparr>value_prop = [0x61], size_prop = 200, level = ''H'', includeMargin = True,
              bgColor = ''#ffffff'', fgColor = ''#000000''\<rparr>) =
     Some (Canvas \<lparr>value_prop = [0x61], size_prop = 200, level = ''H'',
                   includeMargin = True, bgColor = ''#ffffff'', fgColor = ''#000000''\<rparr>) \<and>
   filter is_clipboard_write (effects (handleCopyQRCode [0x61]
     (QRCode \<lparr>value_prop = [0x61], size_prop = 200, level = ''H'', includeMargin = True,
              bgColor = ''#ffffff'', fgColor = ''#000000''\<rparr>)
     \<lparr>encoder = byte_mode_encoder, toBlob_behaviour = ToBlobNull, clipboard = ClipboardWorking\<rparr>)) = [] \<and>
   filter is_toast (effects (handleCopyQRCode [0x61]
     (QRCode \<lparr>value_prop = [0x61], size_prop = 200, level = ''H'', includeMargin = True,
              bgColor = ''#ffffff'', fgColor = ''#000000''\<rparr>)
     \<lparr>encoder = byte_mode_encoder, toBlob_behaviour = ToBlobNull, clipboard = ClipboardWorking\<rparr>)) = []"
  by (simp add: handleCopyQRCode_def copy_try_block_def toBlob_callback_def query_canvas_def
      byte_mode_encoder_a trim_a truthy_def is_clipboard_write_def is_toast_def not_whitespace_a)

text \<open>
  Claim C5: a download action while the page holds a rendered canvas makes exactly one
  save-triggering call, the click on an anchor whose \<open>download\<close> is \<open>qrcode.png\<close> and whose
  \<open>href\<close> is the \<open>image/png\<close> data URL of that canvas.
\<close>

theorem download_triggers_one_save:
  assumes "query_canvas (encoder p) (display (render st)) = Some c"
  shows "filter is_save_trigger (snd (click_download p st)) =
           [AnchorClick ''qrcode.png'' (DataURL ''image/png'' c)] \<and>
         fst (click_download p st) = st"
  using assms by (simp add: click_download_def handleDownload_def is_save_trigger_def)

text \<open>C5 at the page that shows the QR code of \<open>a\<close>.\<close>

theorem download_triggers_one_save_witness:
  "filter is_save_trigger
     (snd (click_download
        \<lparr>encoder = byte_mode_encoder, toBlob_behaviour = ToBlobPng, clipboard = ClipboardWorking\<rparr>
        shown_a)) =
     [AnchorClick ''qrcode.png'' (DataURL ''image/png''
        (Canvas \<lparr>value_prop = [0x61], size_prop = 200, level = ''H'', includeMargin = True,
                 bgColor = ''#ffffff'', fgColor = ''#000000''\<rparr>))]"
proof -
  let ?p = "\<lparr>encoder = byte_mode_encoder, toBlob_behaviour = ToBlobPng,
              clipboard = ClipboardWorking\<rparr>"
  have h: "query_canvas (encoder ?p) (display (render shown_a)) =
      Some (Canvas \<lparr>value_prop = [0x61], size_prop = 200, level = ''H'',
                    includeMargin = True, bgColor = ''#ffffff'', fgColor = ''#000000''\<rparr>)"
    by (simp add: display_shown_a query_canvas_def byte_mode_encoder_a)
  show ?thesis
    using download_triggers_one_save [OF h] by simp
qed

text \<open>
  Claim C6: in every state the page can reach, (1) once 800 ms or more have passed after
  the input was set to \<open>s\<close> with no further input, Debounced text is \<open>s\<close>; (2) if the
  input changes to \<open>s1\<close> and, less than 800 ms later, to \<open>s2\<close>, then Debounced text keeps
  its old value up to the second change and afterwards until 800 ms have passed, and is
  \<open>s2\<close> from then on: \<open>s1\<close> is never published.
\<close>

theorem debounce_publishes_final_value_only:
  "(800 \<le> n \<longrightarrow> debouncedText (elapse n (handleInputChange s (run evs))) = s) \<and>
   (s1 \<noteq> inputText (run evs) \<and> s2 \<noteq> s1 \<and> t < 800 \<longrightarrow>
      (\<forall>k\<le>t. debouncedText (elapse k (handleInputChange s1 (run evs))) =
                 debouncedText (run evs)) \<and>
      (\<forall>m. debouncedText
              (elapse m (handleInputChange s2 (elapse t (handleInputChange s1 (run evs))))) =
            (if 800 \<le> m then s2 else debouncedText (run evs))))"
proof (intro conjI impI allI)
  assume "800 \<le> n"
  then show "debouncedText (elapse n (handleInputChange s (run evs))) = s"
    by (simp add: handleInputChange_def debouncedText_settled debounce_inv_run)
next
  fix k
  assume h: "s1 \<noteq> inputText (run evs) \<and> s2 \<noteq> s1 \<and> t < 800" and "k \<le> t"
  then have "k < 800" by simp
  then show "debouncedText (elapse k (handleInputChange s1 (run evs))) = debouncedText (run evs)"
    using h by (simp add: handleInputChange_def debouncedText_before_expiry debounce_inv_run)
next
  fix m
  assume h: "s1 \<noteq> inputText (run evs) \<and> s2 \<noteq> s1 \<and> t < 800"
  let ?mid = "elapse t (setInputText s1 (run evs))"
  have inv: "debounce_inv ?mid"
    by (simp add: debounce_inv_elapse debounce_inv_setInputText debounce_inv_run)
  have inp: "s2 \<noteq> inputText ?mid"
    using h by (simp add: inputText_elapse setInputText_def)
  have old: "debouncedText ?mid = debouncedText (run evs)"
    using h by (simp add: debouncedText_before_expiry debounce_inv_run)
  show "debouncedText
          (elapse m (handleInputChange s2 (elapse t (handleInputChange s1 (run evs))))) =
        (if 800 \<le> m then s2 else debouncedText (run evs))"
    using debouncedText_after_change [OF inp inv, of m] old
    by (simp add: handleInputChange_def)
qed

text \<open>
  C6 on the fresh page: \<open>a\<close> alone is published after 800 ms; \<open>a\<close> followed 100 ms later
  by \<open>ab\<close> leaves Debounced text empty until \<open>ab\<close> is published 800 ms after that.
\<close>

theorem debounce_publishes_final_value_only_witness:
  "inputText (run []) = [] \<and>
   debouncedText (elapse 800 (handleInputChange [0x61] (run []))) = [0x61] \<and>
   debouncedText (elapse 100 (handleInputChange [0x61] (run []))) = debouncedText (run []) \<and>
   debouncedText (elapse 799
     (handleInputChange [0x61, 0x62] (elapse 100 (handleInputChange [0x61] (run []))))) =
     debouncedText (run []) \<and>
   debouncedText (elapse 800
     (handleInputChange [0x61, 0x62] (elapse 100 (handleInputChange [0x61] (run []))))) =
     [0x61, 0x62]"
proof -
  note inst = debounce_publishes_final_value_only
      [of 800 "[0x61]" "[]" "[0x61]" "[0x61, 0x62]" 100]
  have i: "inputText (run []) = []"
    by (simp add: run_Nil mount_eq)
  have a: "debouncedText (elapse 800 (handleInputChange [0x61] (run []))) = [0x61]"
    using inst by simp
  have hyp: "[0x61] \<noteq> inputText (run []) \<and> [0x61, 0x62] \<noteq> [0x61::16 word] \<and> (100::nat) < 800"
    by (simp add: i)
  have b: "\<forall>k\<le>100. debouncedText (elapse k (handleInputChange [0x61] (run []))) =
                 debouncedText (run [])"
    and c: "\<forall>m. debouncedText (elapse m
              (handleInputChange [0x61, 0x62] (elapse 100 (handleInputChange [0x61] (run []))))) =
            (if 800 \<le> m then [0x61, 0x62] else debouncedText (run []))"
    using inst hyp by blast+
  have b': "debouncedText (elapse 100 (handleInputChange [0x61] (run []))) = debouncedText (run [])"
    using b by simp
  have c1: "debouncedText (elapse 799
     (handleInputChange [0x61, 0x62] (elapse 100 (handleInputChange [0x61] (run []))))) =
     debouncedText (run [])"
    using c [rule_format, of 799] by simp
  have c2: "debouncedText (elapse 800
     (handleInputChange [0x61, 0x62] (elapse 100 (handleInputChange [0x61] (run []))))) =
     [0x61, 0x62]"
    using c [rule_format, of 800] by simp
  show ?thesis
    using i a b' c1 c2 by simp
qed

text \<open>
  Claim C7, as amended: whenever Debounced text has a character other than whitespace, the
  generation flag is false and the encoder can represent the props, the page renders the
  \<open>QRCode\<close> element whose value is exactly Debounced text, with size 200, level \<open>H\<close>, the
  margin included, background \<open>#ffffff\<close> and foreground \<open>#000000\<close>, and the page holds
  the canvas the encoder draws from exactly these props.
\<close>

theorem rendered_qr_code:
  assumes "\<exists>x\<in>set (debouncedText st). \<not> js_whitespace x"
    and "\<not> isGenerating st"
    and "enc \<lparr>value_prop = debouncedText st, size_prop = 200, level = ''H'',
               includeMargin = True, bgColor = ''#ffffff'', fgColor = ''#000000''\<rparr>"
  shows "display (render st) =
           QRCode \<lparr>value_prop = debouncedText st, size_prop = 200, level = ''H'',
                   includeMargin = True, bgColor = ''#ffffff'', fgColor = ''#000000''\<rparr> \<and>
         query_canvas enc (display (render st)) =
           Some (Canvas \<lparr>value_prop = debouncedText st, size_prop = 200, level = ''H'',
                   includeMargin = True, bgColor = ''#ffffff'', fgColor = ''#000000''\<rparr>)"
proof -
  have shown: "display (render st) =
      QRCode \<lparr>value_prop = debouncedText st, size_prop = 200, level = ''H'',
              includeMargin = True, bgColor = ''#ffffff'', fgColor = ''#000000''\<rparr>"
    using assms(1,2) by (simp add: render_def truthy_trim_iff)
  show ?thesis
    using assms(3) by (simp add: shown query_canvas_def)
qed

text \<open>C7 at the page that holds Debounced text \<open>a\<close>, with the sample encoder.\<close>

theorem rendered_qr_code_witness:
  "\<not> js_whitespace 0x61 \<and> \<not> isGenerating shown_a \<and> debouncedText shown_a = [0x61] \<and>
   display (render shown_a) =
     QRCode \<lparr>value_prop = [0x61], size_prop = 200, level = ''H'',
             includeMargin = True, bgColor = ''#ffffff'', fgColor = ''#000000''\<rparr> \<and>
   query_canvas byte_mode_encoder (display (render shown_a)) =
     Some (Canvas \<lparr>value_prop = [0x61], size_prop = 200, level = ''H'',
             includeMargin = True, bgColor = ''#ffffff'', fgColor = ''#000000''\<rparr>)"
proof -
  have d: "debouncedText shown_a = [0x61]"
    by (simp add: shown_a_def debouncedText_def)
  have h1: "\<exists>x\<in>set (debouncedText shown_a). \<not> js_whitespace x"
    by (simp add: d js_whitespace_def)
  have h2: "\<not> isGenerating shown_a"
    by (simp add: shown_a_def)
  have h3: "byte_mode_encoder \<lparr>value_prop = debouncedText shown_a, size_prop = 200,
      level = ''H'', includeMargin = True, bgColor = ''#ffffff'', fgColor = ''#000000''\<rparr>"
    by (simp add: d byte_mode_encoder_a)
  have r: "display (render shown_a) =
      QRCode \<lparr>value_prop = [0x61], size_prop = 200, level = ''H'',
              includeMargin = True, bgColor = ''#ffffff'', fgColor = ''#000000''\<rparr> \<and>
    query_canvas byte_mode_encoder (display (render shown_a)) =
      Some (Canvas \<lparr>value_prop = [0x61], size_prop = 200, level = ''H'',
              includeMargin = True, bgColor = ''#ffffff'', fgColor = ''#000000''\<rparr>)"
    by (rule rendered_qr_code [of shown_a byte_mode_encoder, OF h1 h2 h3, unfolded d])
  show ?thesis
    using r h2 d not_whitespace_a by blast
qed

text \<open>
  C7 as stated, for every text with content, fails: the user types 1274 letters \<open>a\<close> and
  800 ms pass. Debounced text is that text and the generation flag is false, but the text
  exceeds what a QR code of level H holds in byte mode (1273 bytes), the encoder refuses
  it, and the page holds no canvas: no QR code is rendered.
\<close>

theorem unencodable_text_counterexample:
  "debouncedText (elapse 800 (handleInputChange (replicate 1274 0x61) mount)) =
     replicate 1274 0x61 \<and>
   \<not> js_whitespace 0x61 \<and>
   \<not> isGenerating (elapse 800 (handleInputChange (replicate 1274 0x61) mount)) \<and>
   \<not> byte_mode_encoder \<lparr>value_prop = replicate 1274 0x61, size_prop = 200, level = ''H'',
        includeMargin = True, bgColor = ''#ffffff'', fgColor = ''#000000''\<rparr> \<and>
   query_canvas byte_mode_encoder
     (display (render (elapse 800 (handleInputChange (replicate 1274 0x61) mount)))) = None"
proof -
  let ?t = "replicate 1274 (0x61 :: 16 word)"
  let ?st = "elapse 800 (handleInputChange ?t mount)"
  have ne: "?t \<noteq> []"
    by simp
  have st: "?st = \<lparr>inputText = ?t, isGenerating = False,
      debounce = \<lparr>observed = ?t, pending = None, published = ?t\<rparr>, generating_timer = None\<rparr>"
    using ne by (rule settled_state)
  have d: "debouncedText ?st = ?t"
    by (simp only: st debouncedText_def home_state.simps debounce_state.simps)
  have g: "\<not> isGenerating ?st"
    by (simp only: st home_state.simps not_False_eq_True)
  have e: "\<not> byte_mode_encoder \<lparr>value_prop = ?t, size_prop = 200, level = ''H'',
      includeMargin = True, bgColor = ''#ffffff'', fgColor = ''#000000''\<rparr>"
    by (simp add: byte_mode_encoder_def byte_capacity_def)
  have content: "truthy (trim ?t)"
    by (simp add: truthy_trim_iff not_whitespace_a)
  have shown: "display (render ?st) =
      QRCode \<lparr>value_prop = ?t, size_prop = 200, level = ''H'', includeMargin = True,
              bgColor = ''#ffffff'', fgColor = ''#000000''\<rparr>"
    using g content by (simp only: render_def d view.simps if_True if_False)
  have q: "query_canvas byte_mode_encoder (display (render ?st)) = None"
    using e by (simp only: shown query_canvas_def qr_display.case if_False)
  show ?thesis
    using d g e q not_whitespace_a by blast
qed

text \<open>
  Claim C8: in every state the page can reach, the clear button and the key Enter with
  Ctrl held both set Input text to the empty string, and once 800 ms or more have passed
  after either the page shows the placeholder. Where there was input to clear, the page
  keeps showing what it showed (the QR code, if there was one) until those 800 ms are over.
\<close>

theorem clearing_reverts_to_placeholder:
  "inputText (click_clear (run evs)) = [] \<and>
   inputText (handleKeyDown \<lparr>ctrlKey = True, key = ''Enter''\<rparr> (run evs)) = [] \<and>
   (800 \<le> n \<longrightarrow>
      display (render (elapse n (click_clear (run evs)))) = Placeholder \<and>
      display (render (elapse n (handleKeyDown \<lparr>ctrlKey = True, key = ''Enter''\<rparr> (run evs)))) =
        Placeholder) \<and>
   (inputText (run evs) \<noteq> [] \<and> k < 800 \<longrightarrow>
      display (render (elapse k (click_clear (run evs)))) = display (render (run evs)) \<and>
      display (render (elapse k (handleKeyDown \<lparr>ctrlKey = True, key = ''Enter''\<rparr> (run evs)))) =
        display (render (run evs)))"
proof -
  have key: "handleKeyDown \<lparr>ctrlKey = True, key = ''Enter''\<rparr> st = setInputText [] st" for st
    by (simp add: handleKeyDown_def)
  have i: "inputText (setInputText [] (run evs)) = []"
    by (simp add: setInputText_def)
  have after: "display (render (elapse n (setInputText [] (run evs)))) = Placeholder"
    if "800 \<le> n"
    using debouncedText_settled [OF debounce_inv_run that, of "[]" evs]
    by (simp add: render_def trim_def truthy_def)
  have before: "display (render (elapse k (setInputText [] (run evs)))) =
      display (render (run evs))"
    if "inputText (run evs) \<noteq> []" and "k < 800"
  proof -
    have ne: "[] \<noteq> inputText (run evs)"
      using that(1) by simp
    have d: "debouncedText (elapse k (setInputText [] (run evs))) = debouncedText (run evs)"
      using ne debounce_inv_run that(2) by (rule debouncedText_before_expiry)
    have "generation_idle (setInputText [] (run evs))"
      using generation_idle_step [OF generation_idle_run, of evs ClickClear]
      by (simp add: click_clear_def)
    then have "generation_idle (elapse k (setInputText [] (run evs)))"
      by (rule generation_idle_elapse)
    then have g: "isGenerating (elapse k (setInputText [] (run evs))) = isGenerating (run evs)"
      by (simp add: generation_idle_def isGenerating_run)
    show ?thesis
      by (simp add: render_def d g)
  qed
  show ?thesis
    using i after before by (simp add: key click_clear_def)
qed

text \<open>
  C8 on the page that shows the QR code of \<open>a\<close> (typed, then 800 ms of quiet): after the
  clear the QR code is still shown at 799 ms and the placeholder is shown at 800 ms.
\<close>

theorem clearing_reverts_to_placeholder_witness:
  "display (render (run (Change [0x61] # replicate 800 Tick))) =
     QRCode \<lparr>value_prop = [0x61], size_prop = 200, level = ''H'', includeMargin = True,
             bgColor = ''#ffffff'', fgColor = ''#000000''\<rparr> \<and>
   inputText (run (Change [0x61] # replicate 800 Tick)) = [0x61] \<and>
   inputText (click_clear (run (Change [0x61] # replicate 800 Tick))) = [] \<and>
   inputText (handleKeyDown \<lparr>ctrlKey = True, key = ''Enter''\<rparr>
     (run (Change [0x61] # replicate 800 Tick))) = [] \<and>
   display (render (elapse 799 (click_clear (run (Change [0x61] # replicate 800 Tick))))) =
     QRCode \<lparr>value_prop = [0x61], size_prop = 200, level = ''H'', includeMargin = True,
             bgColor = ''#ffffff'', fgColor = ''#000000''\<rparr> \<and>
   display (render (elapse 800 (click_clear (run (Change [0x61] # replicate 800 Tick))))) =
     Placeholder \<and>
   display (render (elapse 800 (handleKeyDown \<lparr>ctrlKey = True, key = ''Enter''\<rparr>
     (run (Change [0x61] # replicate 800 Tick))))) = Placeholder"
proof -
  let ?evs = "Change [0x61] # replicate 800 Tick"
  let ?Q = "QRCode \<lparr>value_prop = [0x61], size_prop = 200, level = ''H'', includeMargin = True,
             bgColor = ''#ffffff'', fgColor = ''#000000''\<rparr>"
  note inst = clearing_reverts_to_placeholder [of ?evs 800 799]
  have shown: "display (render (run ?evs)) = ?Q"
    by (simp only: run_type_a_and_wait display_shown_a)
  have inp: "inputText (run ?evs) = [0x61]"
    by (simp only: run_type_a_and_wait shown_a_def home_state.simps)
  have h1: "(800::nat) \<le> 800" and h2: "inputText (run ?evs) \<noteq> [] \<and> (799::nat) < 800"
    by (simp_all only: inp) simp_all
  have c1: "inputText (click_clear (run ?evs)) = []"
    and c2: "inputText (handleKeyDown \<lparr>ctrlKey = True, key = ''Enter''\<rparr> (run ?evs)) = []"
    and c3: "display (render (elapse 800 (click_clear (run ?evs)))) = Placeholder"
    and c4: "display (render (elapse 800
          (handleKeyDown \<lparr>ctrlKey = True, key = ''Enter''\<rparr> (run ?evs)))) = Placeholder"
    and c5: "display (render (elapse 799 (click_clear (run ?evs)))) = display (render (run ?evs))"
    using inst h1 h2 by blast+
  have c5': "display (render (elapse 799 (click_clear (run ?evs)))) = ?Q"
    using c5 shown by (rule trans)
  show ?thesis
    using shown inp c1 c2 c5' c3 c4 by blast
qed

text \<open>
  Claim C9: the copy action and the download action return the state they were given, so
  Input text, Debounced text and what the page renders are unchanged by either, for every
  state and every browser. All the copy action does besides is to read the canvas, call the
  clipboard and show notices; all the download action does is to create an anchor, read the
  canvas and click the anchor.
\<close>

theorem export_actions_keep_view_state:
  "fst (click_copy p st) = st \<and>
   inputText (fst (click_copy p st)) = inputText st \<and>
   debouncedText (fst (click_copy p st)) = debouncedText st \<and>
   display (render (fst (click_copy p st))) = display (render st) \<and>
   list_all (\<lambda>e. is_toast e \<or> is_canvas_access e \<or> is_clipboard_write e)
     (effects (snd (click_copy p st))) \<and>
   fst (click_download p st) = st \<and>
   inputText (fst (click_download p st)) = inputText st \<and>
   debouncedText (fst (click_download p st)) = debouncedText st \<and>
   display (render (fst (click_download p st))) = display (render st) \<and>
   list_all (\<lambda>e. e = CreateElement ''a'' \<or> is_canvas_access e \<or> is_save_trigger e)
     (snd (click_download p st))"
proof -
  have copy_effects: "list_all (\<lambda>e. is_toast e \<or> is_canvas_access e \<or> is_clipboard_write e)
      (effects (handleCopyQRCode d v p))" for d v
    by (simp add: handleCopyQRCode_def copy_try_block_def toBlob_callback_def is_toast_def
        is_canvas_access_def is_clipboard_write_def
        split: option.split toBlob_behaviour.split clipboard.split)
  have download_effects: "list_all (\<lambda>e. e = CreateElement ''a'' \<or> is_canvas_access e \<or> is_save_trigger e)
      (handleDownload p v)" for v
    by (simp add: handleDownload_def is_canvas_access_def is_save_trigger_def split: option.split)
  show ?thesis
    using copy_effects download_effects by (simp add: click_copy_def click_download_def)
qed

text \<open>
  Claim C10: a copy action with Debounced text that has a character other than whitespace,
  when the QR area holds no canvas or when \<open>toBlob\<close> hands \<open>null\<close> to its callback, issues
  no clipboard write, shows no notice and leaves no rejection behind. The spinner is such
  an area without a canvas, and while the generation flag is true the page holds no canvas
  (it shows the spinner or the placeholder).
\<close>

theorem copy_without_canvas_is_silent:
  assumes "\<exists>x\<in>set d. \<not> js_whitespace x"
    and "query_canvas (encoder p) v = None \<or> toBlob_behaviour p = ToBlobNull"
  shows "filter is_clipboard_write (effects (handleCopyQRCode d v p)) = [] \<and>
         filter is_toast (effects (handleCopyQRCode d v p)) = [] \<and>
         unhandled_rejection (handleCopyQRCode d v p) = None \<and>
         query_canvas (encoder p) Spinner = None \<and>
         (isGenerating st \<longrightarrow> query_canvas (encoder p) (display (render st)) = None)"
proof -
  have t: "truthy (trim d)"
    using assms(1) by (simp add: truthy_trim_iff)
  have silent: "filter is_clipboard_write (effects (handleCopyQRCode d v p)) = [] \<and>
      filter is_toast (effects (handleCopyQRCode d v p)) = [] \<and>
      unhandled_rejection (handleCopyQRCode d v p) = None"
    using assms(2) t
    by (auto simp: handleCopyQRCode_def copy_try_block_def toBlob_callback_def
        is_clipboard_write_def is_toast_def split: option.split)
  have spinner: "query_canvas (encoder p) Spinner = None"
    by (simp add: query_canvas_def)
  have generating: "isGenerating st \<longrightarrow> query_canvas (encoder p) (display (render st)) = None"
    by (simp add: render_def query_canvas_def)
  show ?thesis
    using silent spinner generating by simp
qed

text \<open>C10 at the spinner, and at a rendered QR code whose conversion yields \<open>null\<close>.\<close>

theorem copy_without_canvas_is_silent_witness:
  "\<not> js_whitespace 0x61 \<and>
   effects (handleCopyQRCode [0x61] Spinner
     \<lparr>encoder = byte_mode_encoder, toBlob_behaviour = ToBlobPng, clipboard = ClipboardWorking\<rparr>) = [] \<and>
   unhandled_rejection (handleCopyQRCode [0x61] Spinner
     \<lparr>encoder = byte_mode_encoder, toBlob_behaviour = ToBlobPng, clipboard = ClipboardWorking\<rparr>) = None \<and>
   filter is_clipboard_write (effects (handleCopyQRCode [0x61]
     (QRCode \<lparr>value_prop = [0x61], size_prop = 200, level = ''H'', includeMargin = True,
              bgColor = ''#ffffff'', fgColor = ''#000000''\<rparr>)
     \<lparr>encoder = byte_mode_encoder, toBlob_behaviour = ToBlobNull, clipboard = ClipboardWorking\<rparr>)) = [] \<and>
   filter is_toast (effects (handleCopyQRCode [0x61]
     (QRCode \<lparr>value_prop = [0x61], size_prop = 200, level = ''H'', includeMargin = True,
              bgColor = ''#ffffff'', fgColor = ''#000000''\<rparr>)
     \<lparr>encoder = byte_mode_encoder, toBlob_behaviour = ToBlobNull, clipboard = ClipboardWorking\<rparr>)) = []"
proof -
  let ?P = "\<lparr>value_prop = [0x61], size_prop = 200, level = ''H'', includeMargin = True,
             bgColor = ''#ffffff'', fgColor = ''#000000''\<rparr>"
  let ?ok = "\<lparr>encoder = byte_mode_encoder, toBlob_behaviour = ToBlobPng, clipboard = ClipboardWorking\<rparr>"
  let ?null = "\<lparr>encoder = byte_mode_encoder, toBlob_behaviour = ToBlobNull, clipboard = ClipboardWorking\<rparr>"
  have h1: "\<exists>x\<in>set [0x61]. \<not> js_whitespace x"
    by (simp add: js_whitespace_def)
  have h2: "query_canvas (encoder ?ok) Spinner = None \<or> toBlob_behaviour ?ok = ToBlobNull"
    by (simp add: query_canvas_def)
  have h3: "query_canvas (encoder ?null) (QRCode ?P) = None \<or> toBlob_behaviour ?null = ToBlobNull"
    by simp
  have e: "effects (handleCopyQRCode [0x61] Spinner ?ok) = []"
    by (simp add: handleCopyQRCode_def copy_try_block_def query_canvas_def trim_a truthy_def)
  show ?thesis
    using copy_without_canvas_is_silent [OF h1 h2] copy_without_canvas_is_silent [OF h1 h3] e
    by (simp add: js_whitespace_def)
qed

end
